theory Spec2Isabelle
  imports Complex_Main "HOL-Library.Sublist" "HOL-Library.AList" "HOL-Library.Char_ord"
    "HOL-Library.List_Lexorder" "HOL-Library.Product_Lexorder" "HOL-Library.Multiset"
begin

section \<open>Data model of \<open>imitation/scripts/analyze.py\<close>\<close>

text \<open>
  The documents of a Sacred run directory (\<open>config.json\<close>, \<open>run.json\<close>) are JSON values
  as Python's \<open>json\<close> module reads them. A JSON object is an association list looked up
  with \<open>map_of\<close>; \<open>null\<close>, Python's \<open>None\<close>, is \<open>JNull\<close>. A number without fraction and
  exponent is a Python \<open>int\<close>, \<open>JInt\<close>. A number with a fraction or an exponent is kept
  as the rational its text denotes, \<open>JFloat\<close>: Python reads it as the nearest double,
  \<open>round_double\<close> below. The \<open>json\<close> module also reads a negative zero such as \<open>-0.0\<close>
  and the words \<open>NaN\<close>, \<open>Infinity\<close> and \<open>-Infinity\<close>: they have constructors of their
  own.

  A Python string is modelled by its UTF-8 encoding, a list of bytes. Equality,
  concatenation and the order of strings by code points are equality, concatenation
  and the lexicographic order of the encodings, and an ASCII string is its own
  encoding. The script takes the length of no string that it reads. The plus-minus
  sign of the summary string, U+00B1, is the two bytes 0xC2 0xB1.
\<close>

datatype json =
    JNull
  | JBool bool
  | JInt int
  | JFloat rat
  | JNegZero
  | JNaN
  | JInfinity
  | JNegInfinity
  | JStr string
  | JArr "json list"
  | JObj "(string \<times> json) list"

text \<open>Every exception the modelled code can raise is a value.\<close>

datatype error =
    KeyError string
  | TypeError
  | ValueError
  | AttributeError
  | ZeroDivisionError
  | OverflowError
  | AssertionError
  | JSONDecodeError
  | OSError

text \<open>
  Sequencing: \<open>and_then m f\<close> runs \<open>f\<close> on the value of \<open>m\<close>, and an exception raised by
  \<open>m\<close> leaves at once.
\<close>

definition and_then :: "error + 'a \<Rightarrow> ('a \<Rightarrow> error + 'b) \<Rightarrow> error + 'b" where
  "and_then m f = (case m of Inl e \<Rightarrow> Inl e | Inr x \<Rightarrow> f x)"

text \<open>
  \<open>SacredDicts\<close> is the named tuple \<open>(sacred_dir, config, run)\<close> of
  \<open>imitation.util.sacred\<close>; both documents are JSON objects.
\<close>

record SacredDicts =
  sacred_dir :: string
  config :: "(string \<times> json) list"
  run :: "(string \<times> json) list"

section \<open>Python built-ins used by the script\<close>

text \<open>Decimal digits of an integer, as \<open>str\<close> prints them.\<close>

definition digit_char :: "nat \<Rightarrow> char" where
  "digit_char n = ''0123456789'' ! n"

fun str_nat :: "nat \<Rightarrow> string" where
  "str_nat n = (if n < 10 then [digit_char n] else str_nat (n div 10) @ [digit_char (n mod 10)])"

definition str_int :: "int \<Rightarrow> string" where
  "str_int i = (if i < 0 then CHR ''-'' # str_nat (nat (- i)) else str_nat (nat i))"

text \<open>
  \<open>str(v)\<close> on a JSON value. It never raises. The text Python prints for a float, a list
  or a dict (their \<open>repr\<close>) is the parameter \<open>py_repr\<close>: no property below depends on it.
\<close>

fun py_str :: "(json \<Rightarrow> string) \<Rightarrow> json \<Rightarrow> string" where
  "py_str py_repr JNull = ''None''"
| "py_str py_repr (JBool b) = (if b then ''True'' else ''False'')"
| "py_str py_repr (JInt i) = str_int i"
| "py_str py_repr (JStr s) = s"
| "py_str py_repr v = py_repr v"

text \<open>
  \<open>s.upper()\<close>. On a string of ASCII characters the letters \<open>a\<close> to \<open>z\<close> become \<open>A\<close> to
  \<open>Z\<close> and every other character stays. The upper case of a string with a character
  outside ASCII is a table of the Unicode database: it is the parameter \<open>py_upper\<close>.
\<close>

definition is_ascii :: "char \<Rightarrow> bool" where
  "is_ascii c = ((of_char c :: nat) < 128)"

definition upper_ascii :: "char \<Rightarrow> char" where
  "upper_ascii c =
     (case map_of (zip ''abcdefghijklmnopqrstuvwxyz'' ''ABCDEFGHIJKLMNOPQRSTUVWXYZ'') c of
        Some u \<Rightarrow> u
      | None \<Rightarrow> c)"

definition upper :: "(string \<Rightarrow> string) \<Rightarrow> string \<Rightarrow> string" where
  "upper py_upper s = (if list_all is_ascii s then map upper_ascii s else py_upper s)"

section \<open>Python numbers\<close>

text \<open>
  A Python \<open>float\<close> is an IEEE 754 double: a finite value, which is a rational (the zero
  of \<open>Finite\<close> is the positive zero), the negative zero, an infinity, or NaN.
\<close>

datatype pyfloat = Finite rat | MinusZero | PlusInf | MinusInf | NaN

text \<open>\<open>n.bit_length()\<close>.\<close>

fun bit_length :: "nat \<Rightarrow> nat" where
  "bit_length n = (if n = 0 then 0 else Suc (bit_length (n div 2)))"

text \<open>For \<open>0 < x\<close>, the \<open>e\<close> with \<open>2 ^ e \<le> x < 2 ^ (e + 1)\<close>.\<close>

definition exponent2 :: "rat \<Rightarrow> int" where
  "exponent2 x =
     (if 1 \<le> x then int (bit_length (nat \<lfloor>x\<rfloor>)) - 1
      else - int (bit_length (nat (\<lceil>1 / x\<rceil> - 1))))"

definition pow2 :: "int \<Rightarrow> rat" where
  "pow2 e = (if 0 \<le> e then 2 ^ nat e else 1 / 2 ^ nat (- e))"

text \<open>Rounding to the nearest integer, a tie to the even one.\<close>

definition round_half_even :: "rat \<Rightarrow> int" where
  "round_half_even y =
     (let f = \<lfloor>y\<rfloor>; r = y - of_int f in
      if r < 1 / 2 then f else if 1 / 2 < r then f + 1
      else if even f then f else f + 1)"

text \<open>
  The double nearest to a rational, a tie to the even significand. A double has 53
  significant bits and the exponent of its last bit is at least \<open>-1074\<close>, so below
  \<open>2 ^ (-1022)\<close> the spacing stays \<open>2 ^ (-1074)\<close>. A magnitude that rounds to \<open>2 ^ 1024\<close>
  or more is an infinity; a negative number that rounds to zero is the negative zero.
\<close>

definition round_double :: "rat \<Rightarrow> pyfloat" where
  "round_double x =
     (if x = 0 then Finite 0
      else
        let a = \<bar>x\<bar>;
            e = max (exponent2 a) (- 1022);
            q = pow2 (e - 52);
            y = of_int (round_half_even (a / q)) * q
        in if 2 ^ 1024 \<le> y then (if 0 < x then PlusInf else MinusInf)
           else if y = 0 then (if 0 < x then Finite 0 else MinusZero)
           else Finite (if 0 < x then y else - y))"

text \<open>
  The numbers of Python among the JSON values: an \<open>int\<close> (\<open>bool\<close> is a subclass of
  \<open>int\<close>, \<open>True\<close> is 1 and \<open>False\<close> is 0) or a \<open>float\<close>.
\<close>

datatype number = PyInt int | PyFloat pyfloat

fun num_of :: "json \<Rightarrow> number option" where
  "num_of (JInt i) = Some (PyInt i)"
| "num_of (JBool b) = Some (PyInt (if b then 1 else 0))"
| "num_of (JFloat x) = Some (PyFloat (round_double x))"
| "num_of JNegZero = Some (PyFloat MinusZero)"
| "num_of JNaN = Some (PyFloat NaN)"
| "num_of JInfinity = Some (PyFloat PlusInf)"
| "num_of JNegInfinity = Some (PyFloat MinusInf)"
| "num_of v = None"

text \<open>
  The conversion of a number to \<open>float\<close>: an \<open>int\<close> is rounded to the nearest double,
  and one that would round to an infinity raises \<open>OverflowError\<close>.
\<close>

definition overflow_check :: "pyfloat \<Rightarrow> error + pyfloat" where
  "overflow_check f =
     (case f of PlusInf \<Rightarrow> Inl OverflowError | MinusInf \<Rightarrow> Inl OverflowError | _ \<Rightarrow> Inr f)"

definition to_float :: "number \<Rightarrow> error + pyfloat" where
  "to_float n =
     (case n of PyInt i \<Rightarrow> overflow_check (round_double (of_int i)) | PyFloat f \<Rightarrow> Inr f)"

text \<open>A float written back as the JSON value that reads as this float.\<close>

definition json_of_float :: "pyfloat \<Rightarrow> json" where
  "json_of_float f =
     (case f of
        Finite x \<Rightarrow> JFloat x
      | MinusZero \<Rightarrow> JNegZero
      | PlusInf \<Rightarrow> JInfinity
      | MinusInf \<Rightarrow> JNegInfinity
      | NaN \<Rightarrow> JNaN)"

text \<open>
  \<open>a / b\<close>, Python's true division. Two \<open>int\<close>s give the double nearest to the exact
  quotient, \<open>OverflowError\<close> if that is an infinity, and a zero of the sign of the
  quotient when the dividend is zero. Otherwise both operands are converted to
  \<open>float\<close> and divided as IEEE 754 doubles. A zero divisor raises
  \<open>ZeroDivisionError\<close>, and an operand that is not a number raises \<open>TypeError\<close>.
\<close>

fun negative :: "pyfloat \<Rightarrow> bool" where
  "negative (Finite x) = (x < 0)"
| "negative MinusZero = True"
| "negative MinusInf = True"
| "negative f = False"

fun is_zero :: "pyfloat \<Rightarrow> bool" where
  "is_zero (Finite x) = (x = 0)"
| "is_zero MinusZero = True"
| "is_zero f = False"

fun is_inf :: "pyfloat \<Rightarrow> bool" where
  "is_inf PlusInf = True"
| "is_inf MinusInf = True"
| "is_inf f = False"

fun value_of :: "pyfloat \<Rightarrow> rat" where
  "value_of (Finite x) = x"
| "value_of f = 0"

definition signed_zero :: "bool \<Rightarrow> pyfloat" where
  "signed_zero neg = (if neg then MinusZero else Finite 0)"

definition signed_inf :: "bool \<Rightarrow> pyfloat" where
  "signed_inf neg = (if neg then MinusInf else PlusInf)"

text \<open>The IEEE 754 quotient of two doubles, the divisor not a zero.\<close>

definition ieee_div :: "pyfloat \<Rightarrow> pyfloat \<Rightarrow> pyfloat" where
  "ieee_div x y =
     (let neg = (negative x \<noteq> negative y) in
      if x = NaN \<or> y = NaN then NaN
      else if is_inf x then (if is_inf y then NaN else signed_inf neg)
      else if is_inf y \<or> is_zero x then signed_zero neg
      else round_double (value_of x / value_of y))"

definition float_div :: "pyfloat \<Rightarrow> pyfloat \<Rightarrow> error + pyfloat" where
  "float_div x y = (if is_zero y then Inl ZeroDivisionError else Inr (ieee_div x y))"

definition int_true_div :: "int \<Rightarrow> int \<Rightarrow> error + pyfloat" where
  "int_true_div a b =
     (if b = 0 then Inl ZeroDivisionError
      else if a = 0 then Inr (signed_zero (b < 0))
      else overflow_check (round_double (of_int a / of_int b)))"

definition true_div :: "json \<Rightarrow> json \<Rightarrow> error + pyfloat" where
  "true_div a b =
     (case (num_of a, num_of b) of
        (Some (PyInt x), Some (PyInt y)) \<Rightarrow> int_true_div x y
      | (Some m, Some n) \<Rightarrow>
          and_then (to_float m) (\<lambda>x. and_then (to_float n) (\<lambda>y. float_div x y))
      | _ \<Rightarrow> Inl TypeError)"

section \<open>Nested lookup\<close>

text \<open>
  Modelled from the spec: \<open>imitation.util.sacred.dict_get_nested\<close> (imported as \<open>get\<close>) is
  not among the sources. The spec's FieldExtractor walks the path key by key and returns
  absent (Python's default \<open>None\<close>) as soon as a key is not present in the current
  mapping; it may raise only for a type mismatch against a non-mapping intermediate.
  The model raises \<open>TypeError\<close> exactly there. The dotted key \<open>"a.b"\<close> is the path
  \<open>[''a'', ''b'']\<close>.
\<close>

fun get :: "(string \<times> json) list \<Rightarrow> string list \<Rightarrow> error + json" where
  "get d [] = Inr (JObj d)"
| "get d [k] = (case map_of d k of None \<Rightarrow> Inr JNull | Some v \<Rightarrow> Inr v)"
| "get d (k # ks) =
     (case map_of d k of
        None \<Rightarrow> Inr JNull
      | Some (JObj d') \<Rightarrow> get d' ks
      | Some _ \<Rightarrow> Inl TypeError)"

text \<open>A field is missing when the walk meets a mapping that lacks the next key.\<close>

fun missing :: "(string \<times> json) list \<Rightarrow> string list \<Rightarrow> bool" where
  "missing d [] = False"
| "missing d (k # ks) =
     (case map_of d k of
        None \<Rightarrow> True
      | Some (JObj d') \<Rightarrow> missing d' ks
      | Some _ \<Rightarrow> False)"

section \<open>Algorithm name\<close>

text \<open>\<open>_get_exp_command\<close>: \<open>str(sd.run.get("command"))\<close>.\<close>

definition get_exp_command :: "(json \<Rightarrow> string) \<Rightarrow> 'a SacredDicts_scheme \<Rightarrow> string" where
  "get_exp_command py_repr sd =
     py_str py_repr (case map_of (run sd) ''command'' of None \<Rightarrow> JNull | Some v \<Rightarrow> v)"

text \<open>
  \<open>_get_algo_name\<close>. The result is \<open>None\<close> or a string; \<open>algo.upper()\<close> on a value that
  is not a string raises \<open>AttributeError\<close>.
\<close>

definition get_algo_name ::
  "(json \<Rightarrow> string) \<Rightarrow> (string \<Rightarrow> string) \<Rightarrow> 'a SacredDicts_scheme \<Rightarrow> error + string option" where
  "get_algo_name py_repr py_upper sd =
     (let exp_command = get_exp_command py_repr sd in
      if exp_command = ''train_adversarial'' then
        (case get (config sd) [''algorithm''] of
           Inl e \<Rightarrow> Inl e
         | Inr JNull \<Rightarrow> Inr None
         | Inr (JStr s) \<Rightarrow> Inr (Some (upper py_upper s))
         | Inr _ \<Rightarrow> Inl AttributeError)
      else if exp_command = ''train_bc'' then Inr (Some ''BC'')
      else if exp_command = ''train_dagger'' then Inr (Some ''DAgger'')
      else Inr (Some (''??exp_command='' @ exp_command)))"

section \<open>Return summaries\<close>

text \<open>
  The format specification \<open>3g\<close> of \<open>_make_return_summary\<close> reads, in Python's format
  mini-language, as minimum width 3 and presentation type \<open>g\<close> with no precision given,
  so the precision is the default 6. \<open>format_g\<close> is the \<open>g\<close> presentation of a finite
  value: round to \<open>p\<close> significant digits (ties to even), print in fixed notation when
  the decimal exponent \<open>e\<close> satisfies \<open>-4 \<le> e < p\<close> and in scientific notation
  otherwise, and drop trailing zeros.
\<close>

definition pow10 :: "int \<Rightarrow> rat" where
  "pow10 e = (if 0 \<le> e then 10 ^ nat e else 1 / 10 ^ nat (- e))"

text \<open>For \<open>0 < x\<close>, the \<open>e\<close> with \<open>10 ^ e \<le> x < 10 ^ (e + 1)\<close>.\<close>

definition exponent10 :: "rat \<Rightarrow> int" where
  "exponent10 x =
     (if 1 \<le> x then int (length (str_nat (nat \<lfloor>x\<rfloor>))) - 1
      else - int (length (str_nat (nat (\<lceil>1 / x\<rceil> - 1)))))"

text \<open>The \<open>p\<close> significant digits of \<open>a > 0\<close>, as an integer, and its decimal exponent.\<close>

definition sig_digits :: "nat \<Rightarrow> rat \<Rightarrow> int \<times> int" where
  "sig_digits p a =
     (let e0 = exponent10 a;
          m0 = round_half_even (a / pow10 (e0 - int p + 1))
      in if m0 = 10 ^ p then (10 ^ (p - 1), e0 + 1) else (m0, e0))"

definition strip_zeros :: "string \<Rightarrow> string" where
  "strip_zeros s = rev (dropWhile (\<lambda>c. c = CHR ''0'') (rev s))"

definition with_point :: "string \<Rightarrow> string \<Rightarrow> string" where
  "with_point ip fp = (if strip_zeros fp = [] then ip else ip @ CHR ''.'' # strip_zeros fp)"

definition fixed_repr :: "string \<Rightarrow> int \<Rightarrow> string" where
  "fixed_repr ds e =
     (if 0 \<le> e then with_point (take (nat e + 1) ds) (drop (nat e + 1) ds)
      else with_point ''0'' (replicate (nat (- e) - 1) CHR ''0'' @ ds))"

definition zfill2 :: "string \<Rightarrow> string" where
  "zfill2 s = replicate (2 - length s) CHR ''0'' @ s"

definition sci_repr :: "string \<Rightarrow> int \<Rightarrow> string" where
  "sci_repr ds e =
     with_point [hd ds] (tl ds) @ CHR ''e'' #
       (if e < 0 then CHR ''-'' else CHR ''+'') # zfill2 (str_nat (nat \<bar>e\<bar>))"

definition format_g :: "nat \<Rightarrow> rat \<Rightarrow> string" where
  "format_g prec x =
     (let p = (if prec = 0 then 1 else prec) in
      if x = 0 then ''0''
      else
        (case sig_digits p \<bar>x\<bar> of
           (m, e) \<Rightarrow>
             (if x < 0 then ''-'' else []) @
             (if - 4 \<le> e \<and> e < int p then fixed_repr (str_nat (nat m)) e
              else sci_repr (str_nat (nat m)) e)))"

text \<open>The \<open>g\<close> presentation of a float.\<close>

definition format_float :: "nat \<Rightarrow> pyfloat \<Rightarrow> string" where
  "format_float prec f =
     (case f of
        Finite x \<Rightarrow> format_g prec x
      | MinusZero \<Rightarrow> ''-0''
      | PlusInf \<Rightarrow> ''inf''
      | MinusInf \<Rightarrow> ''-inf''
      | NaN \<Rightarrow> ''nan'')"

text \<open>A number is right-aligned in its minimum width.\<close>

definition rjust :: "nat \<Rightarrow> string \<Rightarrow> string" where
  "rjust w s = replicate (w - length s) CHR '' '' @ s"

text \<open>
  \<open>format(v, "3g")\<close>: an \<open>int\<close> is converted to \<open>float\<close> first, which raises
  \<open>OverflowError\<close> beyond the range of the doubles; a string refuses the format code
  \<open>g\<close> with \<open>ValueError\<close>; \<open>None\<close>, a list and a dict refuse every non-empty format
  specification with \<open>TypeError\<close>.
\<close>

definition format_3g :: "json \<Rightarrow> error + string" where
  "format_3g v =
     (case num_of v of
        Some n \<Rightarrow> and_then (to_float n) (\<lambda>f. Inr (rjust 3 (format_float 6 f)))
      | None \<Rightarrow> (case v of JStr s \<Rightarrow> Inl ValueError | _ \<Rightarrow> Inl TypeError))"

text \<open>\<open>stats[key]\<close>: only a dict can be subscripted with a string.\<close>

definition subscript :: "json \<Rightarrow> string \<Rightarrow> error + json" where
  "subscript stats key =
     (case stats of
        JObj d \<Rightarrow> (case map_of d key of None \<Rightarrow> Inl (KeyError key) | Some v \<Rightarrow> Inr v)
      | _ \<Rightarrow> Inl TypeError)"

text \<open>
  \<open>_make_return_summary\<close>. The three subscripts are evaluated first, then the three fields
  are formatted from left to right.
\<close>

definition make_return_summary :: "(json \<Rightarrow> string) \<Rightarrow> json \<Rightarrow> string \<Rightarrow> error + string" where
  "make_return_summary py_repr stats key_prefix =
     and_then (subscript stats (key_prefix @ ''return_mean'')) (\<lambda>mean.
     and_then (subscript stats (key_prefix @ ''return_std'')) (\<lambda>std.
     and_then (subscript stats ''n_traj'') (\<lambda>n_traj.
     and_then (format_3g mean) (\<lambda>a.
     and_then (format_3g std) (\<lambda>b.
       Inr (a @ '' '' @ [CHR 0xC2, CHR 0xB1] @ '' '' @ b @
            '' (n='' @ py_str py_repr n_traj @ '')''))))))"

record summaries =
  expert_stats :: json
  imit_stats :: json
  expert_return_summary :: "string option"
  imit_return_summary :: "string option"
  imit_expert_ratio :: "pyfloat option"

text \<open>\<open>_return_summaries\<close>.\<close>

definition return_summaries :: "(json \<Rightarrow> string) \<Rightarrow> 'a SacredDicts_scheme \<Rightarrow> error + summaries" where
  "return_summaries py_repr sd =
     and_then (get (run sd) [''result'', ''imit_stats'']) (\<lambda>imit.
     and_then (get (run sd) [''result'', ''expert_stats'']) (\<lambda>expert.
     and_then (if expert \<noteq> JNull
               then map_sum id Some (make_return_summary py_repr expert [])
               else Inr None) (\<lambda>ers.
     and_then (if imit \<noteq> JNull
               then map_sum id Some (make_return_summary py_repr imit ''monitor_'')
               else Inr None) (\<lambda>irs.
     and_then (if imit \<noteq> JNull \<and> expert \<noteq> JNull
               then and_then (subscript imit ''monitor_return_mean'') (\<lambda>im.
                    and_then (subscript expert ''return_mean'') (\<lambda>em.
                      map_sum id Some (true_div im em)))
               else Inr None) (\<lambda>ratio.
       Inr \<lparr>expert_stats = expert, imit_stats = imit, expert_return_summary = ers,
            imit_return_summary = irs, imit_expert_ratio = ratio\<rparr>)))))"

section \<open>Column registry and verbosity tiers\<close>

text \<open>A table cell is a JSON value; \<open>None\<close> is \<open>JNull\<close>.\<close>

definition opt_cell :: "string option \<Rightarrow> json" where
  "opt_cell s = (case s of None \<Rightarrow> JNull | Some t \<Rightarrow> JStr t)"

definition ratio_cell :: "pyfloat option \<Rightarrow> json" where
  "ratio_cell r = (case r of None \<Rightarrow> JNull | Some f \<Rightarrow> json_of_float f)"

type_synonym entry_fn = "SacredDicts \<Rightarrow> error + json"

text \<open>\<open>table_entry_fns\<close>, the ordered dictionary from column names to entry functions.\<close>

definition table_entry_fns ::
  "(json \<Rightarrow> string) \<Rightarrow> (string \<Rightarrow> string) \<Rightarrow> (string \<times> entry_fn) list" where
  "table_entry_fns py_repr py_upper =
     [(''status'', \<lambda>sd. get (run sd) [''status'']),
      (''exp_command'', \<lambda>sd. Inr (JStr (get_exp_command py_repr sd))),
      (''algo'', \<lambda>sd. map_sum id opt_cell (get_algo_name py_repr py_upper sd)),
      (''env_name'', \<lambda>sd. get (config sd) [''env_name'']),
      (''n_expert_demos'', \<lambda>sd. get (config sd) [''n_expert_demos'']),
      (''run_name'', \<lambda>sd. get (run sd) [''experiment'', ''name'']),
      (''expert_return_summary'',
         \<lambda>sd. map_sum id (\<lambda>r. opt_cell (expert_return_summary r)) (return_summaries py_repr sd)),
      (''imit_return_summary'',
         \<lambda>sd. map_sum id (\<lambda>r. opt_cell (imit_return_summary r)) (return_summaries py_repr sd)),
      (''imit_expert_ratio'',
         \<lambda>sd. map_sum id (\<lambda>r. ratio_cell (imit_expert_ratio r)) (return_summaries py_repr sd))]"

text \<open>
  \<open>table_verbosity_mapping\<close> is built by three appends, each tier from the last one of
  the list so far.
\<close>

definition verbosity_0 :: "string set list" where
  "verbosity_0 =
     [] @ [{''algo'', ''env_name'', ''expert_return_summary'', ''imit_return_summary''}]"

definition verbosity_1 :: "string set list" where
  "verbosity_1 = verbosity_0 @ [last verbosity_0 \<union> {''n_expert_demos''}]"

definition table_verbosity_mapping :: "string set list" where
  "table_verbosity_mapping =
     verbosity_1 @
       [last verbosity_1 \<union> {''status'', ''imit_expert_ratio'', ''exp_command'', ''run_name''}]"

text \<open>
  The loop of \<open>_get_table_entry_fns_subset\<close>; \<open>result[k] = v\<close> on an ordered dictionary
  replaces the value of a key in place and appends a new key.
\<close>

fun subset_loop ::
  "string set \<Rightarrow> (string \<times> 'v) list \<Rightarrow> (string \<times> 'v) list \<Rightarrow> (string \<times> 'v) list" where
  "subset_loop keys_subset [] result = result"
| "subset_loop keys_subset ((k, v) # items) result =
     (if k \<notin> keys_subset then subset_loop keys_subset items result
      else subset_loop keys_subset items (AList.update k v result))"

text \<open>\<open>_get_table_entry_fns_subset\<close>; the failed assertion is \<open>AssertionError\<close>.\<close>

definition get_table_entry_fns_subset ::
  "(json \<Rightarrow> string) \<Rightarrow> (string \<Rightarrow> string) \<Rightarrow> int \<Rightarrow> error + (string \<times> entry_fn) list" where
  "get_table_entry_fns_subset py_repr py_upper table_verbosity =
     (if \<not> 0 \<le> table_verbosity then Inl AssertionError
      else if int (length table_verbosity_mapping) \<le> table_verbosity
        then Inr (table_entry_fns py_repr py_upper)
      else Inr (subset_loop (table_verbosity_mapping ! nat table_verbosity)
                  (table_entry_fns py_repr py_upper) []))"

section \<open>Loading and filtering the run directories\<close>

text \<open>
  \<open>filter(f, xs)\<close> followed by \<open>list\<close>: the elements on which \<open>f\<close> is true, in order; an
  exception of \<open>f\<close> leaves the whole call. The three filters of the script are lazy
  and chained, so each record goes through the enabled predicates in turn before the
  next record is looked at; as every exception of a predicate is the same
  \<open>TypeError\<close> of \<open>get\<close>, three passes give the same result.
\<close>

fun filter_list :: "('a \<Rightarrow> error + bool) \<Rightarrow> 'a list \<Rightarrow> error + 'a list" where
  "filter_list f [] = Inr []"
| "filter_list f (x # xs) =
     and_then (f x) (\<lambda>keep.
     and_then (filter_list f xs) (\<lambda>ys.
       Inr (if keep then x # ys else ys)))"

text \<open>The three lambdas of \<open>_gather_sacred_dicts\<close>.\<close>

definition run_name_pred :: "string \<Rightarrow> 'a SacredDicts_scheme \<Rightarrow> error + bool" where
  "run_name_pred run_name sd =
     and_then (get (run sd) [''experiment'', ''name'']) (\<lambda>v. Inr (v = JStr run_name))"

definition env_name_pred :: "string \<Rightarrow> 'a SacredDicts_scheme \<Rightarrow> error + bool" where
  "env_name_pred env_name sd =
     and_then (get (config sd) [''env_name'']) (\<lambda>v. Inr (v = JStr env_name))"

definition status_pred :: "'a SacredDicts_scheme \<Rightarrow> error + bool" where
  "status_pred sd =
     and_then (get (run sd) [''status'']) (\<lambda>v. Inr (v \<noteq> JStr ''FAILED''))"

text \<open>Lines 53 to 68: the filters that are enabled, applied in the order of the script.\<close>

definition select_dicts ::
  "string option \<Rightarrow> string option \<Rightarrow> bool \<Rightarrow> 'a SacredDicts_scheme list
     \<Rightarrow> error + 'a SacredDicts_scheme list" where
  "select_dicts run_name env_name skip_failed_runs sacred_dicts =
     and_then (case run_name of None \<Rightarrow> Inr sacred_dicts
               | Some n \<Rightarrow> filter_list (run_name_pred n) sacred_dicts) (\<lambda>ds1.
     and_then (case env_name of None \<Rightarrow> Inr ds1
               | Some n \<Rightarrow> filter_list (env_name_pred n) ds1) (\<lambda>ds2.
       if skip_failed_runs then filter_list status_pred ds2 else Inr ds2))"

text \<open>
  Lines 47 to 51: the loading loop. \<open>SacredDicts.load_from_dir\<close> reads the file system
  and is not among the sources: it is the parameter \<open>load_from_dir\<close>, which returns the
  record of a directory or the exception of the attempt. The state of the loop is the
  list \<open>sacred_dicts\<close> and the warnings emitted so far; only \<open>JSONDecodeError\<close> is caught,
  and \<open>warnings.warn\<close> reports the warning and returns.
\<close>

fun load_loop ::
  "(string \<Rightarrow> error + SacredDicts) \<Rightarrow> string list \<Rightarrow> SacredDicts list \<Rightarrow> string list
     \<Rightarrow> string list \<times> (error + SacredDicts list)" where
  "load_loop load_from_dir [] sacred_dicts warnings = (warnings, Inr sacred_dicts)"
| "load_loop load_from_dir (dir # dirs) sacred_dicts warnings =
     (case load_from_dir dir of
        Inr sd \<Rightarrow> load_loop load_from_dir dirs (sacred_dicts @ [sd]) warnings
      | Inl JSONDecodeError \<Rightarrow>
          load_loop load_from_dir dirs sacred_dicts
            (warnings @ [''Invalid JSON file in '' @ dir])
      | Inl e \<Rightarrow> (warnings, Inl e))"


section \<open>Building the table\<close>











section \<open>Well-formed statistics\<close>

text \<open>
  The comment in \<open>_return_summaries\<close> assumes that \<open>result.imit_stats\<close> and
  \<open>result.expert_stats\<close> are formatted correctly. What the code needs of a statistics
  sub-document is stated here: it is a dict that holds a count \<open>n_traj\<close> and, under the
  key prefix, a \<open>return_mean\<close> and a \<open>return_std\<close> that are numbers within the range of
  a \<open>float\<close>: a float, or an \<open>int\<close> that converts to one.
\<close>

definition float_convertible :: "json \<Rightarrow> bool" where
  "float_convertible v =
     (case num_of v of
        None \<Rightarrow> False
      | Some n \<Rightarrow> (case to_float n of Inl e \<Rightarrow> False | Inr f \<Rightarrow> True))"

definition well_formed_stats :: "string \<Rightarrow> json \<Rightarrow> bool" where
  "well_formed_stats key_prefix stats =
     (case stats of
        JObj d \<Rightarrow>
          (case (map_of d (key_prefix @ ''return_mean''),
                 map_of d (key_prefix @ ''return_std''), map_of d ''n_traj'') of
             (Some mean, Some std, Some n_traj) \<Rightarrow>
               float_convertible mean \<and> float_convertible std
           | _ \<Rightarrow> False)
      | _ \<Rightarrow> False)"

text \<open>A number that is equal to zero: the \<open>int\<close> 0 or one of the two zeros of \<open>float\<close>.\<close>

definition zero_number :: "number \<Rightarrow> bool" where
  "zero_number n = (case n of PyInt i \<Rightarrow> i = 0 | PyFloat f \<Rightarrow> is_zero f)"

section \<open>Evaluation rules\<close>

text \<open>
  The recursion equations of \<open>str_nat\<close> and \<open>bit_length\<close> are applied to numerals only,
  so that the simplifier evaluates them and stops.
\<close>

declare str_nat.simps [simp del]

lemma str_nat_numeral [simp]:
  "str_nat (numeral k) =
     (if (numeral k :: nat) < 10 then [digit_char (numeral k)]
      else str_nat (numeral k div 10) @ [digit_char (numeral k mod 10)])"
  by (rule str_nat.simps)

lemma str_nat_0 [simp]: "str_nat 0 = ''0''"
  by (simp add: str_nat.simps digit_char_def)

lemma str_nat_1 [simp]: "str_nat (Suc 0) = ''1''"
  by (simp add: str_nat.simps digit_char_def)

declare bit_length.simps [simp del]

lemma bit_length_numeral [simp]:
  "bit_length (numeral k) = Suc (bit_length (numeral k div 2))"
  by (simp add: bit_length.simps [of "numeral k"])

lemma bit_length_0 [simp]: "bit_length 0 = 0"
  by (simp add: bit_length.simps)

lemma bit_length_1 [simp]: "bit_length (Suc 0) = 1"
  by (simp add: bit_length.simps [of "Suc 0"])

lemma floor_rat_numeral [simp]:
  "\<lfloor>numeral a / numeral b :: rat\<rfloor> = numeral a div numeral b"
  using floor_divide_of_int_eq [of "numeral a" "numeral b", where ?'a = rat] by simp

lemma ceiling_rat_numeral [simp]:
  "\<lceil>numeral a / numeral b :: rat\<rceil> = - (- numeral a div numeral b)"
  using ceiling_divide_eq_div [of "numeral a" "numeral b", where ?'a = rat] by simp

lemma digit_char_simps [simp]:
  "digit_char 0 = CHR ''0''" "digit_char (Suc 0) = CHR ''1''" "digit_char 2 = CHR ''2''"
  "digit_char 3 = CHR ''3''" "digit_char 4 = CHR ''4''" "digit_char 5 = CHR ''5''"
  "digit_char 6 = CHR ''6''" "digit_char 7 = CHR ''7''" "digit_char 8 = CHR ''8''"
  "digit_char 9 = CHR ''9''"
  by (simp_all add: digit_char_def)

section \<open>The algorithm name\<close>

text \<open>
  The decimal text of an integer ends with a digit, so \<open>str\<close> of \<open>None\<close>, of a boolean
  or of an integer is none of the three command names.
\<close>

lemma digit_char_cases:
  "n < 10 \<Longrightarrow> digit_char n \<in> set ''0123456789''"
  unfolding digit_char_def by (rule nth_mem) simp

lemma last_str_nat: "str_nat n \<noteq> [] \<and> last (str_nat n) \<in> set ''0123456789''"
proof (cases "n < 10")
  case True
  then show ?thesis
    using digit_char_cases [of n] by (simp add: str_nat.simps [of n])
next
  case False
  then show ?thesis
    using digit_char_cases [of "n mod 10"] by (simp add: str_nat.simps [of n])
qed

lemma last_str_int: "str_int i \<noteq> [] \<and> last (str_int i) \<in> set ''0123456789''"
  using last_str_nat [of "nat i"] last_str_nat [of "nat (- i)"]
  by (simp add: str_int_def)

lemma str_int_not_command:
  "str_int i \<notin> {''train_adversarial'', ''train_bc'', ''train_dagger''}"
proof
  assume "str_int i \<in> {''train_adversarial'', ''train_bc'', ''train_dagger''}"
  then have "last (str_int i) \<in> {CHR ''l'', CHR ''c'', CHR ''r''}"
    by auto
  with last_str_int [of i] show False
    by auto
qed

lemma simple_values_not_command:
  "(case v of JNull \<Rightarrow> True | JBool b \<Rightarrow> True | JInt i \<Rightarrow> True | _ \<Rightarrow> False) \<Longrightarrow>
   py_str py_repr v \<notin> {''train_adversarial'', ''train_bc'', ''train_dagger''}"
  using str_int_not_command by (cases v) simp_all

text \<open>
  C4. The claim gives, for every record of kind \<open>train_adversarial\<close>, the \<open>algorithm\<close> of
  the configuration in upper case, or \<open>None\<close>. It does not hold for every record:
  \<open>algo.upper()\<close> is called on whatever value is not \<open>None\<close>, and with the algorithm 5
  the call raises \<open>AttributeError\<close>.
\<close>

theorem algo_name_raises_counterexample:
  "get_algo_name (\<lambda>v. []) (\<lambda>s. s)
     \<lparr>sacred_dir = ''r/1'', config = [(''algorithm'', JInt 5)],
      run = [(''command'', JStr ''train_adversarial'')]\<rparr> = Inl AttributeError"
  by (simp add: get_algo_name_def get_exp_command_def)

text \<open>
  C4, amended. \<open>_get_algo_name\<close> dispatches on the \<open>command\<close> field of the run document.
  The command \<open>train_bc\<close> gives \<open>BC\<close> and \<open>train_dagger\<close> gives \<open>DAgger\<close>, whatever the
  configuration holds. The command \<open>train_adversarial\<close> gives the \<open>algorithm\<close> of the
  configuration in upper case when it is a string, \<open>None\<close> when it is absent or null,
  and raises \<open>AttributeError\<close> when it is any other value. Every other command \<open>k\<close>
  that is a string gives, without an exception, the string \<open>??exp_command=\<close> followed
  by \<open>k\<close>; a command that is not a string gives \<open>??exp_command=\<close> followed by its
  \<open>str\<close>, which for \<open>None\<close>, a boolean and an integer is never a command name.
\<close>

theorem algo_name_dispatch:
  "(map_of (run sd) ''command'' = Some (JStr ''train_bc'') \<longrightarrow>
      get_algo_name py_repr py_upper sd = Inr (Some ''BC'')) \<and>
   (map_of (run sd) ''command'' = Some (JStr ''train_dagger'') \<longrightarrow>
      get_algo_name py_repr py_upper sd = Inr (Some ''DAgger'')) \<and>
   (map_of (run sd) ''command'' = Some (JStr ''train_adversarial'') \<longrightarrow>
      get_algo_name py_repr py_upper sd =
        (case map_of (config sd) ''algorithm'' of
           None \<Rightarrow> Inr None
         | Some JNull \<Rightarrow> Inr None
         | Some (JStr s) \<Rightarrow> Inr (Some (upper py_upper s))
         | Some _ \<Rightarrow> Inl AttributeError)) \<and>
   (\<forall>k. map_of (run sd) ''command'' = Some (JStr k) \<and>
        k \<notin> {''train_adversarial'', ''train_bc'', ''train_dagger''} \<longrightarrow>
      get_algo_name py_repr py_upper sd = Inr (Some (''??exp_command='' @ k))) \<and>
   (\<forall>v. map_of (run sd) ''command'' = Some v \<and>
        py_str py_repr v \<notin> {''train_adversarial'', ''train_bc'', ''train_dagger''} \<longrightarrow>
      get_algo_name py_repr py_upper sd = Inr (Some (''??exp_command='' @ py_str py_repr v))) \<and>
   (\<forall>v. (case v of JNull \<Rightarrow> True | JBool b \<Rightarrow> True | JInt i \<Rightarrow> True | _ \<Rightarrow> False) \<longrightarrow>
      py_str py_repr v \<notin> {''train_adversarial'', ''train_bc'', ''train_dagger''})"
proof (intro conjI impI allI)
  fix v
  assume "case v of JNull \<Rightarrow> True | JBool b \<Rightarrow> True | JInt i \<Rightarrow> True | _ \<Rightarrow> False"
  then show "py_str py_repr v \<notin> {''train_adversarial'', ''train_bc'', ''train_dagger''}"
    by (rule simple_values_not_command)
qed (auto simp add: get_algo_name_def get_exp_command_def split: option.splits json.splits)

theorem algo_name_dispatch_witness:
  "get_algo_name (\<lambda>v. []) (\<lambda>s. s) \<lparr>sacred_dir = ''r/1'', config = [(''algorithm'', JStr ''gail'')],
      run = [(''command'', JStr ''train_bc'')]\<rparr> = Inr (Some ''BC'') \<and>
   get_algo_name (\<lambda>v. []) (\<lambda>s. s) \<lparr>sacred_dir = ''r/2'', config = [(''algorithm'', JStr ''gail'')],
      run = [(''command'', JStr ''train_dagger'')]\<rparr> = Inr (Some ''DAgger'') \<and>
   get_algo_name (\<lambda>v. []) (\<lambda>s. s) \<lparr>sacred_dir = ''r/3'', config = [(''algorithm'', JStr ''gail'')],
      run = [(''command'', JStr ''train_adversarial'')]\<rparr> = Inr (Some ''GAIL'') \<and>
   get_algo_name (\<lambda>v. []) (\<lambda>s. s) \<lparr>sacred_dir = ''r/4'', config = [(''algorithm'', JNull)],
      run = [(''command'', JStr ''train_adversarial'')]\<rparr> = Inr None \<and>
   get_algo_name (\<lambda>v. []) (\<lambda>s. s) \<lparr>sacred_dir = ''r/5'', config = [(''algorithm'', JBool True)],
      run = [(''command'', JStr ''train_adversarial'')]\<rparr> = Inl AttributeError \<and>
   get_algo_name (\<lambda>v. []) (\<lambda>s. s) \<lparr>sacred_dir = ''r/6'', config = [],
      run = [(''command'', JStr ''foo'')]\<rparr> = Inr (Some ''??exp_command=foo'') \<and>
   get_algo_name (\<lambda>v. []) (\<lambda>s. s) \<lparr>sacred_dir = ''r/7'', config = [],
      run = [(''command'', JInt 42)]\<rparr> = Inr (Some ''??exp_command=42'')"
  using
    algo_name_dispatch [of "\<lparr>sacred_dir = ''r/1'', config = [(''algorithm'', JStr ''gail'')],
      run = [(''command'', JStr ''train_bc'')]\<rparr>" "\<lambda>v. []" "\<lambda>s. s"]
    algo_name_dispatch [of "\<lparr>sacred_dir = ''r/2'', config = [(''algorithm'', JStr ''gail'')],
      run = [(''command'', JStr ''train_dagger'')]\<rparr>" "\<lambda>v. []" "\<lambda>s. s"]
    algo_name_dispatch [of "\<lparr>sacred_dir = ''r/3'', config = [(''algorithm'', JStr ''gail'')],
      run = [(''command'', JStr ''train_adversarial'')]\<rparr>" "\<lambda>v. []" "\<lambda>s. s"]
    algo_name_dispatch [of "\<lparr>sacred_dir = ''r/4'', config = [(''algorithm'', JNull)],
      run = [(''command'', JStr ''train_adversarial'')]\<rparr>" "\<lambda>v. []" "\<lambda>s. s"]
    algo_name_dispatch [of "\<lparr>sacred_dir = ''r/5'', config = [(''algorithm'', JBool True)],
      run = [(''command'', JStr ''train_adversarial'')]\<rparr>" "\<lambda>v. []" "\<lambda>s. s"]
    algo_name_dispatch [of "\<lparr>sacred_dir = ''r/6'', config = [],
      run = [(''command'', JStr ''foo'')]\<rparr>" "\<lambda>v. []" "\<lambda>s. s"]
    algo_name_dispatch [of "\<lparr>sacred_dir = ''r/7'', config = [],
      run = [(''command'', JInt 42)]\<rparr>" "\<lambda>v. []" "\<lambda>s. s"]
  by (simp add: upper_def upper_ascii_def is_ascii_def str_int_def)

text \<open>
  C10. A run document with no \<open>command\<close> key: \<open>sd.run.get("command")\<close> is \<open>None\<close>, its
  \<open>str\<close> is \<open>"None"\<close>, which is none of the three known commands, and the algorithm
  name is the string \<open>??exp_command=None\<close>; it is neither \<open>None\<close> nor an exception.
\<close>

theorem algo_name_without_command:
  "map_of (run sd) ''command'' = None \<Longrightarrow>
   get_algo_name py_repr py_upper sd = Inr (Some ''??exp_command=None'')"
  by (simp add: get_algo_name_def get_exp_command_def)

theorem algo_name_without_command_witness:
  "map_of (run \<lparr>sacred_dir = ''r/1'', config = [(''algorithm'', JStr ''gail'')],
      run = [(''status'', JStr ''COMPLETED'')]\<rparr>) ''command'' = None \<and>
   get_algo_name (\<lambda>v. []) (\<lambda>s. s) \<lparr>sacred_dir = ''r/1'', config = [(''algorithm'', JStr ''gail'')],
      run = [(''status'', JStr ''COMPLETED'')]\<rparr> = Inr (Some ''??exp_command=None'')"
  using algo_name_without_command [of "\<lparr>sacred_dir = ''r/1'',
      config = [(''algorithm'', JStr ''gail'')], run = [(''status'', JStr ''COMPLETED'')]\<rparr>"
      "\<lambda>v. []" "\<lambda>s. s"]
  by simp

section \<open>The verbosity tiers\<close>

lemma tvm_eval:
  "table_verbosity_mapping =
     [{''algo'', ''env_name'', ''expert_return_summary'', ''imit_return_summary''},
      {''algo'', ''env_name'', ''expert_return_summary'', ''imit_return_summary''} \<union> {''n_expert_demos''},
      ({''algo'', ''env_name'', ''expert_return_summary'', ''imit_return_summary''} \<union> {''n_expert_demos''})
        \<union> {''status'', ''imit_expert_ratio'', ''exp_command'', ''run_name''}]"
  by (simp add: table_verbosity_mapping_def verbosity_1_def verbosity_0_def)

lemma tier_cases:
  assumes "0 \<le> k1" and "k1 < k2" and "k2 < int (length table_verbosity_mapping)"
  shows "k1 = 0 \<and> k2 = 1 \<or> k1 = 0 \<and> k2 = 2 \<or> k1 = 1 \<and> k2 = 2"
proof -
  have "length table_verbosity_mapping = 3" by (simp add: tvm_eval)
  with assms show ?thesis by arith
qed

lemma tier_0_1:
  "table_verbosity_mapping ! nat 0 \<subseteq> table_verbosity_mapping ! nat 1 \<and>
   (\<exists>c1 c2. get_table_entry_fns_subset py_repr py_upper 0 = Inr c1 \<and>
           get_table_entry_fns_subset py_repr py_upper 1 = Inr c2 \<and>
           set (map fst c1) \<subseteq> set (map fst c2))"
  by (simp add: get_table_entry_fns_subset_def tvm_eval table_entry_fns_def)

lemma tier_0_2:
  "table_verbosity_mapping ! nat 0 \<subseteq> table_verbosity_mapping ! nat 2 \<and>
   (\<exists>c1 c2. get_table_entry_fns_subset py_repr py_upper 0 = Inr c1 \<and>
           get_table_entry_fns_subset py_repr py_upper 2 = Inr c2 \<and>
           set (map fst c1) \<subseteq> set (map fst c2))"
  by (simp add: get_table_entry_fns_subset_def tvm_eval table_entry_fns_def)

lemma tier_1_2:
  "table_verbosity_mapping ! nat 1 \<subseteq> table_verbosity_mapping ! nat 2 \<and>
   (\<exists>c1 c2. get_table_entry_fns_subset py_repr py_upper 1 = Inr c1 \<and>
           get_table_entry_fns_subset py_repr py_upper 2 = Inr c2 \<and>
           set (map fst c1) \<subseteq> set (map fst c2))"
  by (simp add: get_table_entry_fns_subset_def tvm_eval table_entry_fns_def)

text \<open>
  C6. For verbosity tiers \<open>k1 < k2\<close> within the tier table, the set of tier \<open>k1\<close> is a
  subset of the set of tier \<open>k2\<close>, both selections succeed, and every column name
  selected at \<open>k1\<close> is selected at \<open>k2\<close>.
\<close>

theorem tiers_monotone:
  assumes "0 \<le> k1" and "k1 < k2" and "k2 < int (length table_verbosity_mapping)"
  shows "table_verbosity_mapping ! nat k1 \<subseteq> table_verbosity_mapping ! nat k2 \<and>
         (\<exists>c1 c2. get_table_entry_fns_subset py_repr py_upper k1 = Inr c1 \<and>
                  get_table_entry_fns_subset py_repr py_upper k2 = Inr c2 \<and>
                  set (map fst c1) \<subseteq> set (map fst c2))"
proof -
  from tier_cases [OF assms]
  consider (a) "k1 = 0" "k2 = 1" | (b) "k1 = 0" "k2 = 2" | (c) "k1 = 1" "k2 = 2"
    by fastforce
  then show ?thesis
  proof cases
    case a
    show ?thesis unfolding a by (rule tier_0_1)
  next
    case b
    show ?thesis unfolding b by (rule tier_0_2)
  next
    case c
    show ?thesis unfolding c by (rule tier_1_2)
  qed
qed

theorem tiers_monotone_witness:
  "(0::int) \<le> 0 \<and> (0::int) < 2 \<and> 2 < int (length table_verbosity_mapping) \<and>
   table_verbosity_mapping ! nat 0 \<subseteq> table_verbosity_mapping ! nat 2 \<and>
   (\<exists>c1 c2. get_table_entry_fns_subset (\<lambda>v. []) (\<lambda>s. s) 0 = Inr c1 \<and>
            get_table_entry_fns_subset (\<lambda>v. []) (\<lambda>s. s) 2 = Inr c2 \<and>
            set (map fst c1) \<subseteq> set (map fst c2))"
proof -
  have h: "2 < int (length table_verbosity_mapping)"
    by (simp add: tvm_eval)
  have h0: "(0::int) \<le> 0" and h1: "(0::int) < 2"
    by simp_all
  from h0 h1 h tiers_monotone [OF h0 h1 h, of "\<lambda>v. []" "\<lambda>s. s"] show ?thesis
    by (intro conjI) (simp_all only: simp_thms)
qed

text \<open>
  C7. A verbosity at or beyond the number of defined tiers selects the whole
  registry \<open>table_entry_fns\<close>, in its order, however large the verbosity is; so the
  selections at 5 and at 1000 are equal.
\<close>

theorem verbosity_saturates:
  "int (length table_verbosity_mapping) \<le> tier \<Longrightarrow>
   get_table_entry_fns_subset py_repr py_upper tier = Inr (table_entry_fns py_repr py_upper) \<and>
   get_table_entry_fns_subset py_repr py_upper tier = get_table_entry_fns_subset py_repr py_upper 1000 \<and>
   get_table_entry_fns_subset py_repr py_upper 5 = get_table_entry_fns_subset py_repr py_upper 1000"
  by (simp add: get_table_entry_fns_subset_def tvm_eval)

theorem verbosity_saturates_witness:
  "int (length table_verbosity_mapping) \<le> 3 \<and>
   get_table_entry_fns_subset (\<lambda>v. []) (\<lambda>s. s) 3 = Inr (table_entry_fns (\<lambda>v. []) (\<lambda>s. s)) \<and>
   get_table_entry_fns_subset (\<lambda>v. []) (\<lambda>s. s) 3 = get_table_entry_fns_subset (\<lambda>v. []) (\<lambda>s. s) 1000 \<and>
   get_table_entry_fns_subset (\<lambda>v. []) (\<lambda>s. s) 5 = get_table_entry_fns_subset (\<lambda>v. []) (\<lambda>s. s) 1000"
proof -
  have h: "int (length table_verbosity_mapping) \<le> 3"
    by (simp add: tvm_eval)
  show ?thesis
    using h verbosity_saturates [OF h, of "\<lambda>v. []" "\<lambda>s. s"] by blast
qed

section \<open>The return summary\<close>

text \<open>The doubles that Python reads for 5.123456 and 0.987654.\<close>

lemma round_double_mean:
  "round_double (5123456 / 1000000) = Finite (5768498633112283 / 1125899906842624)"
  by (simp add: round_double_def exponent2_def pow2_def round_half_even_def Let_def)

lemma round_double_std:
  "round_double (987654 / 1000000) = Finite (1111999546592745 / 1125899906842624)"
  by (simp add: round_double_def exponent2_def pow2_def round_half_even_def Let_def)

lemma format_3g_float:
  "round_double x = Finite y \<Longrightarrow> format_g 6 y = s \<Longrightarrow>
   format_3g (JFloat x) = Inr (rjust 3 s)"
  by (simp add: format_3g_def to_float_def and_then_def format_float_def)

lemma format_3g_mean: "format_3g (JFloat (5123456 / 1000000)) = Inr ''5.12346''"
proof -
  have "sig_digits 6 \<bar>5768498633112283 / 1125899906842624\<bar> = (512346, 0)"
    by (simp add: sig_digits_def exponent10_def round_half_even_def pow10_def Let_def)
  then have "format_g 6 (5768498633112283 / 1125899906842624) = ''5.12346''"
    by (simp add: format_g_def fixed_repr_def with_point_def strip_zeros_def)
  from format_3g_float [OF round_double_mean this] show ?thesis
    by (simp add: rjust_def)
qed

lemma format_3g_std: "format_3g (JFloat (987654 / 1000000)) = Inr ''0.987654''"
proof -
  have "sig_digits 6 \<bar>1111999546592745 / 1125899906842624\<bar> = (987654, - 1)"
    by (simp add: sig_digits_def exponent10_def round_half_even_def pow10_def Let_def)
  then have "format_g 6 (1111999546592745 / 1125899906842624) = ''0.987654''"
    by (simp add: format_g_def fixed_repr_def with_point_def strip_zeros_def)
  from format_3g_float [OF round_double_std this] show ?thesis
    by (simp add: rjust_def)
qed

lemma format_float_three_digits:
  "format_float 3 (round_double (5123456 / 1000000)) = ''5.12''"
  "format_float 3 (round_double (987654 / 1000000)) = ''0.988''"
proof -
  have "sig_digits 3 \<bar>5768498633112283 / 1125899906842624\<bar> = (512, 0)"
    by (simp add: sig_digits_def exponent10_def round_half_even_def pow10_def Let_def)
  then have "format_g 3 (5768498633112283 / 1125899906842624) = ''5.12''"
    by (simp add: format_g_def fixed_repr_def with_point_def strip_zeros_def)
  then show "format_float 3 (round_double (5123456 / 1000000)) = ''5.12''"
    unfolding round_double_mean by (simp add: format_float_def)
  have "sig_digits 3 \<bar>1111999546592745 / 1125899906842624\<bar> = (988, - 1)"
    by (simp add: sig_digits_def exponent10_def round_half_even_def pow10_def Let_def)
  then have "format_g 3 (1111999546592745 / 1125899906842624) = ''0.988''"
    by (simp add: format_g_def fixed_repr_def with_point_def strip_zeros_def)
  then show "format_float 3 (round_double (987654 / 1000000)) = ''0.988''"
    unfolding round_double_std by (simp add: format_float_def)
qed

text \<open>
  C1. The claim is that the summary of mean 5.123456, standard deviation 0.987654 and
  count 10 is \<open>5.12\<close>, plus-minus sign, \<open>0.988 (n=10)\<close>, three significant digits. The
  format specification of the code is \<open>3g\<close>, a minimum width, not \<open>.3g\<close>, a precision:
  the code prints six significant digits, \<open>5.12346\<close> and \<open>0.987654\<close>, and its result is
  not the claimed string. (\<open>format_float_three_digits\<close>: precision 3 would print the
  digits of the claim.)
\<close>

theorem return_summary_six_digits:
  "make_return_summary py_repr
     (JObj [(''return_mean'', JFloat (5123456 / 1000000)),
            (''return_std'', JFloat (987654 / 1000000)),
            (''n_traj'', JInt 10)]) []
   = Inr (''5.12346 '' @ [CHR 0xC2, CHR 0xB1] @ '' 0.987654 (n=10)'') \<and>
   make_return_summary py_repr
     (JObj [(''return_mean'', JFloat (5123456 / 1000000)),
            (''return_std'', JFloat (987654 / 1000000)),
            (''n_traj'', JInt 10)]) []
   \<noteq> Inr (''5.12 '' @ [CHR 0xC2, CHR 0xB1] @ '' 0.988 (n=10)'')"
proof -
  define mean :: rat where "mean = 5123456 / 1000000"
  define std :: rat where "std = 987654 / 1000000"
  have m: "format_3g (JFloat mean) = Inr ''5.12346''"
    unfolding mean_def by (rule format_3g_mean)
  have s: "format_3g (JFloat std) = Inr ''0.987654''"
    unfolding std_def by (rule format_3g_std)
  have "make_return_summary py_repr
     (JObj [(''return_mean'', JFloat mean), (''return_std'', JFloat std),
            (''n_traj'', JInt 10)]) []
   = Inr (''5.12346 '' @ [CHR 0xC2, CHR 0xB1] @ '' 0.987654 (n=10)'')"
    by (simp add: make_return_summary_def subscript_def and_then_def m s str_int_def)
  then show ?thesis
    unfolding mean_def std_def by simp
qed

section \<open>The ratio of the return summaries\<close>

text \<open>
  \<open>_make_return_summary\<close> returns exactly on the well-formed statistics, and raises on
  the others.
\<close>

lemma format_3g_iff: "(\<exists>s. format_3g v = Inr s) \<longleftrightarrow> float_convertible v"
  by (auto simp add: format_3g_def float_convertible_def and_then_def
        split: option.splits sum.splits json.splits)

lemma make_return_summary_iff:
  "(\<exists>s. make_return_summary py_repr stats pfx = Inr s) \<longleftrightarrow> well_formed_stats pfx stats"
proof (cases stats)
  case (JObj d)
  show ?thesis
  proof (cases "map_of d (pfx @ ''return_mean'')")
    case None
    with JObj show ?thesis
      by (simp add: make_return_summary_def well_formed_stats_def subscript_def and_then_def)
  next
    case mean: (Some mean)
    show ?thesis
    proof (cases "map_of d (pfx @ ''return_std'')")
      case None
      with JObj mean show ?thesis
        by (simp add: make_return_summary_def well_formed_stats_def subscript_def and_then_def)
    next
      case std: (Some std)
      show ?thesis
      proof (cases "map_of d ''n_traj''")
        case None
        with JObj mean std show ?thesis
          by (simp add: make_return_summary_def well_formed_stats_def subscript_def and_then_def)
      next
        case (Some n_traj)
        with JObj mean std format_3g_iff [of mean] format_3g_iff [of std] show ?thesis
          by (auto simp add: make_return_summary_def well_formed_stats_def subscript_def
                and_then_def split: sum.splits)
      qed
    qed
  qed
qed (simp_all add: make_return_summary_def well_formed_stats_def subscript_def and_then_def)

lemma make_return_summary_raises:
  "\<not> well_formed_stats pfx stats \<Longrightarrow> \<exists>e. make_return_summary py_repr stats pfx = Inl e"
  using make_return_summary_iff [of py_repr stats pfx]
  by (cases "make_return_summary py_repr stats pfx") auto

lemma well_formed_mean:
  "well_formed_stats pfx stats \<Longrightarrow>
   \<exists>x. subscript stats (pfx @ ''return_mean'') = Inr x \<and> float_convertible x"
  by (auto simp add: well_formed_stats_def subscript_def split: json.splits option.splits)

text \<open>The quotient in the plain cases, and the zero divisor.\<close>

lemma true_div_ints:
  "a \<noteq> 0 \<Longrightarrow> b \<noteq> 0 \<Longrightarrow> round_double (of_int a / of_int b) = Finite q \<Longrightarrow>
   true_div (JInt a) (JInt b) = Inr (Finite q)"
  by (simp add: true_div_def int_true_div_def overflow_check_def)

lemma true_div_floats:
  "num_of x = Some (PyFloat (Finite u)) \<Longrightarrow> num_of y = Some (PyFloat (Finite v)) \<Longrightarrow>
   u \<noteq> 0 \<Longrightarrow> v \<noteq> 0 \<Longrightarrow> true_div x y = Inr (round_double (u / v))"
  by (simp add: true_div_def to_float_def and_then_def float_div_def ieee_div_def)

lemma true_div_zero:
  assumes "float_convertible x" and "num_of y = Some n" and "zero_number n"
  shows "true_div x y = Inl ZeroDivisionError"
proof -
  from assms(1) obtain m g where m: "num_of x = Some m" and g: "to_float m = Inr g"
    by (auto simp add: float_convertible_def split: option.splits sum.splits)
  show ?thesis
  proof (cases n)
    case (PyInt b)
    with assms(3) have "b = 0"
      by (simp add: zero_number_def)
    with PyInt m g assms(2) show ?thesis
      by (cases m)
        (simp_all add: true_div_def int_true_div_def to_float_def and_then_def float_div_def
           overflow_check_def round_double_def)
  next
    case (PyFloat h)
    with assms(3) have "is_zero h"
      by (simp add: zero_number_def)
    with PyFloat m g assms(2) show ?thesis
      by (cases m) (simp_all add: true_div_def and_then_def float_div_def to_float_def)
  qed
qed

text \<open>
  C3. \<open>_return_summaries\<close> formats the summary of every statistics sub-document that is
  present before it looks at the ratio, and the script assumes the sub-documents well
  formed. So the claim does not hold for every record: with no \<open>expert_stats\<close> and an
  \<open>imit_stats\<close> that lacks its mean, the call raises \<open>KeyError\<close> and yields no ratio.
\<close>

theorem return_summaries_raises_counterexample:
  "get (run \<lparr>sacred_dir = ''r/1'', config = [],
         run = [(''result'', JObj [(''imit_stats'', JObj [])])]\<rparr>)
     [''result'', ''expert_stats''] = Inr JNull \<and>
   return_summaries (\<lambda>v. [])
     \<lparr>sacred_dir = ''r/1'', config = [],
      run = [(''result'', JObj [(''imit_stats'', JObj [])])]\<rparr>
     = Inl (KeyError ''monitor_return_mean'')"
  by (simp add: return_summaries_def make_return_summary_def subscript_def and_then_def)

text \<open>
  C3, amended. For every record: if a lookup of \<open>result.imit_stats\<close> or
  \<open>result.expert_stats\<close> raises, \<open>_return_summaries\<close> raises the same exception.
  Otherwise, with \<open>imit\<close> and \<open>expert\<close> the values looked up (\<open>None\<close> when absent):
  if one that is present is not well formed, the call raises; if either is absent and
  the other is absent or well formed, it returns with \<open>imit_expert_ratio = None\<close>; if
  both are present and well formed, the ratio is Python's quotient \<open>x / y\<close> of the
  imitation mean \<open>x\<close> by the expert mean \<open>y\<close>. That quotient raises
  \<open>ZeroDivisionError\<close> when \<open>y\<close> is zero; for two integers other than zero it is the
  double nearest to the exact quotient when that is finite; for two finite floats
  other than zero it is the double nearest to the quotient of their values (expert
  mean 10 and imitation mean 7 give the double nearest to 7/10).
\<close>

theorem return_summaries_ratio:
  "(\<forall>e. get (run sd) [''result'', ''imit_stats''] = Inl e \<longrightarrow>
      return_summaries py_repr sd = Inl e) \<and>
   (\<forall>imit e. get (run sd) [''result'', ''imit_stats''] = Inr imit \<and>
      get (run sd) [''result'', ''expert_stats''] = Inl e \<longrightarrow>
      return_summaries py_repr sd = Inl e) \<and>
   (\<forall>imit expert.
      get (run sd) [''result'', ''imit_stats''] = Inr imit \<and>
      get (run sd) [''result'', ''expert_stats''] = Inr expert \<longrightarrow>
      ((imit \<noteq> JNull \<and> \<not> well_formed_stats ''monitor_'' imit) \<or>
       (expert \<noteq> JNull \<and> \<not> well_formed_stats [] expert) \<longrightarrow>
         (\<exists>e. return_summaries py_repr sd = Inl e)) \<and>
      ((imit = JNull \<or> expert = JNull) \<and>
       (imit = JNull \<or> well_formed_stats ''monitor_'' imit) \<and>
       (expert = JNull \<or> well_formed_stats [] expert) \<longrightarrow>
         map_sum id imit_expert_ratio (return_summaries py_repr sd) = Inr None) \<and>
      (imit \<noteq> JNull \<and> expert \<noteq> JNull \<and>
       well_formed_stats ''monitor_'' imit \<and> well_formed_stats [] expert \<longrightarrow>
         (\<exists>x y. subscript imit ''monitor_return_mean'' = Inr x \<and>
                subscript expert ''return_mean'' = Inr y \<and>
                map_sum id imit_expert_ratio (return_summaries py_repr sd) =
                  map_sum id Some (true_div x y) \<and>
                (\<forall>n. num_of y = Some n \<and> zero_number n \<longrightarrow>
                   true_div x y = Inl ZeroDivisionError) \<and>
                (\<forall>a b q. x = JInt a \<and> y = JInt b \<and> a \<noteq> 0 \<and> b \<noteq> 0 \<and>
                   round_double (of_int a / of_int b) = Finite q \<longrightarrow>
                   true_div x y = Inr (Finite q)) \<and>
                (\<forall>u v. num_of x = Some (PyFloat (Finite u)) \<and>
                   num_of y = Some (PyFloat (Finite v)) \<and> u \<noteq> 0 \<and> v \<noteq> 0 \<longrightarrow>
                   true_div x y = Inr (round_double (u / v))))))"
proof (intro conjI allI impI)
  fix e
  assume "get (run sd) [''result'', ''imit_stats''] = Inl e"
  then show "return_summaries py_repr sd = Inl e"
    by (simp add: return_summaries_def and_then_def del: get.simps)
next
  fix imit e
  assume "get (run sd) [''result'', ''imit_stats''] = Inr imit \<and>
      get (run sd) [''result'', ''expert_stats''] = Inl e"
  then show "return_summaries py_repr sd = Inl e"
    by (simp add: return_summaries_def and_then_def del: get.simps)
next
  fix imit expert
  assume g: "get (run sd) [''result'', ''imit_stats''] = Inr imit \<and>
      get (run sd) [''result'', ''expert_stats''] = Inr expert"
    and bad: "(imit \<noteq> JNull \<and> \<not> well_formed_stats ''monitor_'' imit) \<or>
       (expert \<noteq> JNull \<and> \<not> well_formed_stats [] expert)"
  show "\<exists>e. return_summaries py_repr sd = Inl e"
  proof (cases "expert \<noteq> JNull \<and> \<not> well_formed_stats [] expert")
    case True
    then obtain e where "make_return_summary py_repr expert [] = Inl e"
      using make_return_summary_raises by blast
    with g True show ?thesis
      by (simp add: return_summaries_def and_then_def del: get.simps)
  next
    case False
    with bad have i: "imit \<noteq> JNull" "\<not> well_formed_stats ''monitor_'' imit"
      by auto
    then obtain e where e: "make_return_summary py_repr imit ''monitor_'' = Inl e"
      using make_return_summary_raises by blast
    show ?thesis
    proof (cases "expert = JNull")
      case True
      with g i e show ?thesis
        by (simp add: return_summaries_def and_then_def del: get.simps)
    next
      case present: False
      with False have "well_formed_stats [] expert" by simp
      then obtain s where "make_return_summary py_repr expert [] = Inr s"
        using make_return_summary_iff by blast
      with g i e present show ?thesis
        by (simp add: return_summaries_def and_then_def del: get.simps)
    qed
  qed
next
  fix imit expert
  assume g: "get (run sd) [''result'', ''imit_stats''] = Inr imit \<and>
      get (run sd) [''result'', ''expert_stats''] = Inr expert"
    and h: "(imit = JNull \<or> expert = JNull) \<and>
       (imit = JNull \<or> well_formed_stats ''monitor_'' imit) \<and>
       (expert = JNull \<or> well_formed_stats [] expert)"
  have e: "expert \<noteq> JNull \<Longrightarrow> \<exists>s. make_return_summary py_repr expert [] = Inr s"
    using h make_return_summary_iff by blast
  have i: "imit \<noteq> JNull \<Longrightarrow> \<exists>s. make_return_summary py_repr imit ''monitor_'' = Inr s"
    using h make_return_summary_iff by blast
  from g h e i show "map_sum id imit_expert_ratio (return_summaries py_repr sd) = Inr None"
    by (auto simp add: return_summaries_def and_then_def simp del: get.simps)
next
  fix imit expert
  assume g: "get (run sd) [''result'', ''imit_stats''] = Inr imit \<and>
      get (run sd) [''result'', ''expert_stats''] = Inr expert"
    and h: "imit \<noteq> JNull \<and> expert \<noteq> JNull \<and>
       well_formed_stats ''monitor_'' imit \<and> well_formed_stats [] expert"
  obtain s where e: "make_return_summary py_repr expert [] = Inr s"
    using h make_return_summary_iff by blast
  obtain t where i: "make_return_summary py_repr imit ''monitor_'' = Inr t"
    using h make_return_summary_iff by blast
  from h obtain x where x: "subscript imit (''monitor_'' @ ''return_mean'') = Inr x"
    and cx: "float_convertible x"
    using well_formed_mean by blast
  from h obtain y where y: "subscript expert ([] @ ''return_mean'') = Inr y"
    using well_formed_mean by blast
  from x have x': "subscript imit ''monitor_return_mean'' = Inr x" by simp
  from y have y': "subscript expert ''return_mean'' = Inr y" by simp
  have r: "map_sum id imit_expert_ratio (return_summaries py_repr sd) =
      map_sum id Some (true_div x y)"
    using g h
    by (cases "true_div x y")
      (simp_all add: return_summaries_def and_then_def e i x' y' del: get.simps)
  have z: "\<forall>n. num_of y = Some n \<and> zero_number n \<longrightarrow> true_div x y = Inl ZeroDivisionError"
    using true_div_zero [OF cx] by blast
  have ints: "\<forall>a b q. x = JInt a \<and> y = JInt b \<and> a \<noteq> 0 \<and> b \<noteq> 0 \<and>
      round_double (of_int a / of_int b) = Finite q \<longrightarrow> true_div x y = Inr (Finite q)"
    using true_div_ints by blast
  have floats: "\<forall>u v. num_of x = Some (PyFloat (Finite u)) \<and>
      num_of y = Some (PyFloat (Finite v)) \<and> u \<noteq> 0 \<and> v \<noteq> 0 \<longrightarrow>
      true_div x y = Inr (round_double (u / v))"
    using true_div_floats by blast
  from x' y' r z ints floats
  show "\<exists>x y. subscript imit ''monitor_return_mean'' = Inr x \<and>
      subscript expert ''return_mean'' = Inr y \<and>
      map_sum id imit_expert_ratio (return_summaries py_repr sd) =
        map_sum id Some (true_div x y) \<and>
      (\<forall>n. num_of y = Some n \<and> zero_number n \<longrightarrow> true_div x y = Inl ZeroDivisionError) \<and>
      (\<forall>a b q. x = JInt a \<and> y = JInt b \<and> a \<noteq> 0 \<and> b \<noteq> 0 \<and>
         round_double (of_int a / of_int b) = Finite q \<longrightarrow> true_div x y = Inr (Finite q)) \<and>
      (\<forall>u v. num_of x = Some (PyFloat (Finite u)) \<and>
         num_of y = Some (PyFloat (Finite v)) \<and> u \<noteq> 0 \<and> v \<noteq> 0 \<longrightarrow>
         true_div x y = Inr (round_double (u / v)))"
    by blast
qed


text \<open>The double nearest to 7/10, and the small integers of the example below.\<close>

lemma round_double_7_10:
  "round_double (7 / 10) = Finite (3152519739159347 / 4503599627370496)"
  by (simp add: round_double_def exponent2_def pow2_def round_half_even_def Let_def)

lemma small_ints_convertible:
  "float_convertible (JInt 1)" "float_convertible (JInt 2)" "float_convertible (JInt 7)"
  "float_convertible (JInt 10)" "float_convertible (JInt 0)"
  by (simp_all add: float_convertible_def to_float_def overflow_check_def round_double_def
        exponent2_def pow2_def round_half_even_def Let_def)

theorem return_summaries_ratio_witness:
  "map_sum id imit_expert_ratio
     (return_summaries (\<lambda>v. [])
        \<lparr>sacred_dir = ''r/1'', config = [],
         run = [(''result'', JObj [(''imit_stats'',
                  JObj [(''monitor_return_mean'', JInt 7), (''monitor_return_std'', JInt 1),
                        (''n_traj'', JInt 5)])])]\<rparr>) = Inr None \<and>
   map_sum id imit_expert_ratio
     (return_summaries (\<lambda>v. [])
        \<lparr>sacred_dir = ''r/2'', config = [],
         run = [(''result'', JObj
                  [(''imit_stats'',
                      JObj [(''monitor_return_mean'', JInt 7), (''monitor_return_std'', JInt 1),
                            (''n_traj'', JInt 5)]),
                   (''expert_stats'',
                      JObj [(''return_mean'', JInt 10), (''return_std'', JInt 2),
                            (''n_traj'', JInt 5)])])]\<rparr>)
     = Inr (Some (Finite (3152519739159347 / 4503599627370496))) \<and>
   map_sum id imit_expert_ratio
     (return_summaries (\<lambda>v. [])
        \<lparr>sacred_dir = ''r/3'', config = [],
         run = [(''result'', JObj
                  [(''imit_stats'',
                      JObj [(''monitor_return_mean'', JInt 7), (''monitor_return_std'', JInt 1),
                            (''n_traj'', JInt 5)]),
                   (''expert_stats'',
                      JObj [(''return_mean'', JInt 0), (''return_std'', JInt 2),
                            (''n_traj'', JInt 5)])])]\<rparr>)
     = Inl ZeroDivisionError \<and>
   return_summaries (\<lambda>v. [])
     \<lparr>sacred_dir = ''r/4'', config = [], run = [(''result'', JNull)]\<rparr> = Inl TypeError"
proof -
  define imit where "imit = JObj [(''monitor_return_mean'', JInt 7),
    (''monitor_return_std'', JInt 1), (''n_traj'', JInt 5)]"
  define expert where "expert = JObj [(''return_mean'', JInt 10), (''return_std'', JInt 2),
    (''n_traj'', JInt 5)]"
  define expert0 where "expert0 = JObj [(''return_mean'', JInt 0), (''return_std'', JInt 2),
    (''n_traj'', JInt 5)]"
  have wi: "well_formed_stats ''monitor_'' imit"
    by (simp add: imit_def well_formed_stats_def small_ints_convertible)
  have we: "well_formed_stats [] expert"
    by (simp add: expert_def well_formed_stats_def small_ints_convertible)
  have we0: "well_formed_stats [] expert0"
    by (simp add: expert0_def well_formed_stats_def small_ints_convertible)
  have ne: "imit \<noteq> JNull" "expert \<noteq> JNull" "expert0 \<noteq> JNull"
    by (simp_all add: imit_def expert_def expert0_def)
  have si: "subscript imit ''monitor_return_mean'' = Inr (JInt 7)"
    by (simp add: imit_def subscript_def)
  have se: "subscript expert ''return_mean'' = Inr (JInt 10)"
    by (simp add: expert_def subscript_def)
  have se0: "subscript expert0 ''return_mean'' = Inr (JInt 0)"
    by (simp add: expert0_def subscript_def)
  have q: "true_div (JInt 7) (JInt 10) = Inr (Finite (3152519739159347 / 4503599627370496))"
    by (rule true_div_ints) (simp_all add: round_double_7_10)
  have a: "map_sum id imit_expert_ratio
     (return_summaries (\<lambda>v. [])
        \<lparr>sacred_dir = ''r/1'', config = [],
         run = [(''result'', JObj [(''imit_stats'', imit)])]\<rparr>) = Inr None"
    using return_summaries_ratio [of "\<lparr>sacred_dir = ''r/1'', config = [],
         run = [(''result'', JObj [(''imit_stats'', imit)])]\<rparr>" "\<lambda>v. []"] wi
    by simp
  have b: "map_sum id imit_expert_ratio
     (return_summaries (\<lambda>v. [])
        \<lparr>sacred_dir = ''r/2'', config = [],
         run = [(''result'', JObj [(''imit_stats'', imit), (''expert_stats'', expert)])]\<rparr>)
     = Inr (Some (Finite (3152519739159347 / 4503599627370496)))"
    using return_summaries_ratio [of "\<lparr>sacred_dir = ''r/2'', config = [],
         run = [(''result'', JObj [(''imit_stats'', imit), (''expert_stats'', expert)])]\<rparr>"
         "\<lambda>v. []"] wi we ne si se q
    by simp
  have c: "map_sum id imit_expert_ratio
     (return_summaries (\<lambda>v. [])
        \<lparr>sacred_dir = ''r/3'', config = [],
         run = [(''result'', JObj [(''imit_stats'', imit), (''expert_stats'', expert0)])]\<rparr>)
     = Inl ZeroDivisionError"
    using return_summaries_ratio [of "\<lparr>sacred_dir = ''r/3'', config = [],
         run = [(''result'', JObj [(''imit_stats'', imit), (''expert_stats'', expert0)])]\<rparr>"
         "\<lambda>v. []"] wi we0 ne si se0
    by (simp add: zero_number_def)
  have d: "return_summaries (\<lambda>v. [])
     \<lparr>sacred_dir = ''r/4'', config = [], run = [(''result'', JNull)]\<rparr> = Inl TypeError"
    using return_summaries_ratio [of "\<lparr>sacred_dir = ''r/4'', config = [],
         run = [(''result'', JNull)]\<rparr>" "\<lambda>v. []"]
    by simp
  from a b c d show ?thesis
    unfolding imit_def expert_def expert0_def by (intro conjI)
qed

section \<open>The filters\<close>

text \<open>
  A filter that returns, returns the elements on which its predicate is true; the
  three filters of \<open>_gather_sacred_dicts\<close> together are three such selections. Only
  the lookup of \<open>experiment.name\<close>, a path of two keys, can raise.
\<close>

lemma filter_list_eq:
  "filter_list f xs = Inr ys \<Longrightarrow> ys = filter (\<lambda>x. f x = Inr True) xs"
proof (induction xs arbitrary: ys)
  case Nil
  then show ?case by simp
next
  case (Cons x xs)
  then show ?case
    by (auto simp add: and_then_def split: sum.splits if_splits)
qed

lemma filter_list_total:
  "\<forall>x\<in>set xs. \<exists>b. f x = Inr b \<Longrightarrow> \<exists>ys. filter_list f xs = Inr ys"
  by (induction xs) (auto simp add: and_then_def)

lemma filter_list_set:
  "filter_list f xs = Inr ys \<Longrightarrow> set ys \<subseteq> set xs"
  by (auto dest: filter_list_eq)

lemma select_dicts_eq:
  assumes "select_dicts run_name env_name skip_failed_runs sds = Inr out"
  shows "out =
     filter (\<lambda>sd. skip_failed_runs \<longrightarrow> status_pred sd = Inr True)
       (filter (\<lambda>sd. \<forall>n. env_name = Some n \<longrightarrow> env_name_pred n sd = Inr True)
          (filter (\<lambda>sd. \<forall>n. run_name = Some n \<longrightarrow> run_name_pred n sd = Inr True) sds))"
proof -
  from assms obtain ds1 ds2 where
    s1: "(case run_name of None \<Rightarrow> Inr sds | Some n \<Rightarrow> filter_list (run_name_pred n) sds) = Inr ds1"
    and s2: "(case env_name of None \<Rightarrow> Inr ds1 | Some n \<Rightarrow> filter_list (env_name_pred n) ds1) = Inr ds2"
    and s3: "(if skip_failed_runs then filter_list status_pred ds2 else Inr ds2) = Inr out"
    by (auto simp add: select_dicts_def and_then_def split: sum.splits)
  from s1 have d1: "ds1 = filter (\<lambda>sd. \<forall>n. run_name = Some n \<longrightarrow> run_name_pred n sd = Inr True) sds"
    by (cases run_name) (auto dest: filter_list_eq)
  from s2 have d2: "ds2 = filter (\<lambda>sd. \<forall>n. env_name = Some n \<longrightarrow> env_name_pred n sd = Inr True) ds1"
    by (cases env_name) (auto dest: filter_list_eq)
  from s3 have d3: "out = filter (\<lambda>sd. skip_failed_runs \<longrightarrow> status_pred sd = Inr True) ds2"
    by (cases skip_failed_runs) (auto dest: filter_list_eq)
  show ?thesis unfolding d3 d2 d1 ..
qed

lemma missing_get: "missing d p \<Longrightarrow> get d p = Inr JNull"
proof (induction d p rule: get.induct)
  case (1 d)
  then show ?case by simp
next
  case (2 d k)
  then show ?case by (auto split: option.splits json.splits)
next
  case (3 d k v va)
  then show ?case by (auto split: option.splits json.splits)
qed

lemma get_single_total: "\<exists>v. get d [k] = Inr v"
  by (simp split: option.splits)

lemma env_name_pred_total: "\<exists>b. env_name_pred n sd = Inr b"
  using get_single_total [of "config sd" "''env_name''"]
  by (auto simp add: env_name_pred_def and_then_def simp del: get.simps)

lemma status_pred_total: "\<exists>b. status_pred sd = Inr b"
  using get_single_total [of "run sd" "''status''"]
  by (auto simp add: status_pred_def and_then_def simp del: get.simps)

lemma run_name_pred_total:
  "\<forall>e. get (run sd) [''experiment'', ''name''] \<noteq> Inl e \<Longrightarrow> \<exists>b. run_name_pred n sd = Inr b"
  by (cases "get (run sd) [''experiment'', ''name'']")
    (auto simp add: run_name_pred_def and_then_def simp del: get.simps)

lemma select_dicts_total:
  assumes "\<forall>sd\<in>set sds. \<forall>e. get (run sd) [''experiment'', ''name''] \<noteq> Inl e"
  shows "\<exists>out. select_dicts run_name env_name skip_failed_runs sds = Inr out"
proof -
  have "\<exists>ds1. (case run_name of None \<Rightarrow> Inr sds
      | Some n \<Rightarrow> filter_list (run_name_pred n) sds) = Inr ds1"
  proof (cases run_name)
    case None
    then show ?thesis by simp
  next
    case (Some n)
    have "\<forall>sd\<in>set sds. \<exists>b. run_name_pred n sd = Inr b"
      using assms run_name_pred_total by blast
    then show ?thesis
      using Some filter_list_total [of sds "run_name_pred n"] by simp
  qed
  then obtain ds1 where s1: "(case run_name of None \<Rightarrow> Inr sds
      | Some n \<Rightarrow> filter_list (run_name_pred n) sds) = Inr ds1" ..
  have "\<exists>ds2. (case env_name of None \<Rightarrow> Inr ds1
      | Some n \<Rightarrow> filter_list (env_name_pred n) ds1) = Inr ds2"
  proof (cases env_name)
    case None
    then show ?thesis by simp
  next
    case (Some n)
    have "\<forall>sd\<in>set ds1. \<exists>b. env_name_pred n sd = Inr b"
      using env_name_pred_total by blast
    then show ?thesis
      using Some filter_list_total [of ds1 "env_name_pred n"] by simp
  qed
  then obtain ds2 where s2: "(case env_name of None \<Rightarrow> Inr ds1
      | Some n \<Rightarrow> filter_list (env_name_pred n) ds1) = Inr ds2" ..
  have "\<forall>sd\<in>set ds2. \<exists>b. status_pred sd = Inr b"
    using status_pred_total by blast
  then have "\<exists>out. (if skip_failed_runs then filter_list status_pred ds2 else Inr ds2) = Inr out"
    using filter_list_total [of ds2 status_pred] by simp
  then obtain out where
    s3: "(if skip_failed_runs then filter_list status_pred ds2 else Inr ds2) = Inr out" ..
  from s1 s2 s3 have "select_dicts run_name env_name skip_failed_runs sds = Inr out"
    by (simp add: select_dicts_def and_then_def)
  then show ?thesis ..
qed

lemma count_list_filter_le: "count_list (filter P xs) x \<le> count_list xs x"
  by (induction xs) auto

text \<open>
  C8. Whatever filters are enabled, a list that \<open>_gather_sacred_dicts\<close> selects from
  the loaded records is a subsequence of them: its records are records of the input,
  in the same relative order, and none occurs more often than in the input. The
  selection returns whenever no lookup of \<open>experiment.name\<close> raises.
\<close>

theorem select_dicts_subseq:
  "(\<forall>out. select_dicts run_name env_name skip_failed_runs sds = Inr out \<longrightarrow>
      subseq out sds \<and> set out \<subseteq> set sds \<and>
      (\<forall>sd. count_list out sd \<le> count_list sds sd)) \<and>
   ((\<forall>sd\<in>set sds. \<forall>e. get (run sd) [''experiment'', ''name''] \<noteq> Inl e) \<longrightarrow>
      (\<exists>out. select_dicts run_name env_name skip_failed_runs sds = Inr out))"
proof (intro conjI allI impI)
  fix out
  assume "select_dicts run_name env_name skip_failed_runs sds = Inr out"
  then have eq: "out =
     filter (\<lambda>sd. skip_failed_runs \<longrightarrow> status_pred sd = Inr True)
       (filter (\<lambda>sd. \<forall>n. env_name = Some n \<longrightarrow> env_name_pred n sd = Inr True)
          (filter (\<lambda>sd. \<forall>n. run_name = Some n \<longrightarrow> run_name_pred n sd = Inr True) sds))"
    by (rule select_dicts_eq)
  show "subseq out sds"
    unfolding eq
    by (rule subseq_order.trans [OF subseq_filter_left],
        rule subseq_order.trans [OF subseq_filter_left], rule subseq_filter_left)
  show "set out \<subseteq> set sds"
    unfolding eq by auto
  fix sd
  show "count_list out sd \<le> count_list sds sd"
    unfolding eq
    by (rule order_trans [OF count_list_filter_le], rule order_trans [OF count_list_filter_le],
        rule count_list_filter_le)
next
  assume "\<forall>sd\<in>set sds. \<forall>e. get (run sd) [''experiment'', ''name''] \<noteq> Inl e"
  then show "\<exists>out. select_dicts run_name env_name skip_failed_runs sds = Inr out"
    by (rule select_dicts_total)
qed

theorem select_dicts_subseq_witness:
  "select_dicts (Some ''exp'') (Some ''CartPole'') True
     [\<lparr>sacred_dir = ''r/1'', config = [(''env_name'', JStr ''CartPole'')],
        run = [(''experiment'', JObj [(''name'', JStr ''exp'')]), (''status'', JStr ''COMPLETED'')]\<rparr>,
      \<lparr>sacred_dir = ''r/2'', config = [(''env_name'', JStr ''CartPole'')],
        run = [(''experiment'', JObj [(''name'', JStr ''exp'')]), (''status'', JStr ''FAILED'')]\<rparr>,
      \<lparr>sacred_dir = ''r/3'', config = [(''env_name'', JStr ''Ant'')],
        run = [(''experiment'', JObj [(''name'', JStr ''exp'')]), (''status'', JStr ''COMPLETED'')]\<rparr>,
      \<lparr>sacred_dir = ''r/4'', config = [(''env_name'', JStr ''CartPole'')],
        run = [(''experiment'', JObj [(''name'', JStr ''exp'')]), (''status'', JStr ''COMPLETED'')]\<rparr>]
   = Inr
     [\<lparr>sacred_dir = ''r/1'', config = [(''env_name'', JStr ''CartPole'')],
        run = [(''experiment'', JObj [(''name'', JStr ''exp'')]), (''status'', JStr ''COMPLETED'')]\<rparr>,
      \<lparr>sacred_dir = ''r/4'', config = [(''env_name'', JStr ''CartPole'')],
        run = [(''experiment'', JObj [(''name'', JStr ''exp'')]), (''status'', JStr ''COMPLETED'')]\<rparr>] \<and>
   subseq
     [\<lparr>sacred_dir = ''r/1'', config = [(''env_name'', JStr ''CartPole'')],
        run = [(''experiment'', JObj [(''name'', JStr ''exp'')]), (''status'', JStr ''COMPLETED'')]\<rparr>,
      \<lparr>sacred_dir = ''r/4'', config = [(''env_name'', JStr ''CartPole'')],
        run = [(''experiment'', JObj [(''name'', JStr ''exp'')]), (''status'', JStr ''COMPLETED'')]\<rparr>]
     [\<lparr>sacred_dir = ''r/1'', config = [(''env_name'', JStr ''CartPole'')],
        run = [(''experiment'', JObj [(''name'', JStr ''exp'')]), (''status'', JStr ''COMPLETED'')]\<rparr>,
      \<lparr>sacred_dir = ''r/2'', config = [(''env_name'', JStr ''CartPole'')],
        run = [(''experiment'', JObj [(''name'', JStr ''exp'')]), (''status'', JStr ''FAILED'')]\<rparr>,
      \<lparr>sacred_dir = ''r/3'', config = [(''env_name'', JStr ''Ant'')],
        run = [(''experiment'', JObj [(''name'', JStr ''exp'')]), (''status'', JStr ''COMPLETED'')]\<rparr>,
      \<lparr>sacred_dir = ''r/4'', config = [(''env_name'', JStr ''CartPole'')],
        run = [(''experiment'', JObj [(''name'', JStr ''exp'')]), (''status'', JStr ''COMPLETED'')]\<rparr>]"
proof -
  define r1 where "r1 = \<lparr>sacred_dir = ''r/1'', config = [(''env_name'', JStr ''CartPole'')],
        run = [(''experiment'', JObj [(''name'', JStr ''exp'')]), (''status'', JStr ''COMPLETED'')]\<rparr>"
  define r2 where "r2 = \<lparr>sacred_dir = ''r/2'', config = [(''env_name'', JStr ''CartPole'')],
        run = [(''experiment'', JObj [(''name'', JStr ''exp'')]), (''status'', JStr ''FAILED'')]\<rparr>"
  define r3 where "r3 = \<lparr>sacred_dir = ''r/3'', config = [(''env_name'', JStr ''Ant'')],
        run = [(''experiment'', JObj [(''name'', JStr ''exp'')]), (''status'', JStr ''COMPLETED'')]\<rparr>"
  define r4 where "r4 = \<lparr>sacred_dir = ''r/4'', config = [(''env_name'', JStr ''CartPole'')],
        run = [(''experiment'', JObj [(''name'', JStr ''exp'')]), (''status'', JStr ''COMPLETED'')]\<rparr>"
  have p: "run_name_pred ''exp'' r1 = Inr True" "run_name_pred ''exp'' r2 = Inr True"
    "run_name_pred ''exp'' r3 = Inr True" "run_name_pred ''exp'' r4 = Inr True"
    "env_name_pred ''CartPole'' r1 = Inr True" "env_name_pred ''CartPole'' r2 = Inr True"
    "env_name_pred ''CartPole'' r3 = Inr False" "env_name_pred ''CartPole'' r4 = Inr True"
    "status_pred r1 = Inr True" "status_pred r2 = Inr False" "status_pred r4 = Inr True"
    by (simp_all add: r1_def r2_def r3_def r4_def run_name_pred_def env_name_pred_def
          status_pred_def and_then_def)
  have e: "select_dicts (Some ''exp'') (Some ''CartPole'') True [r1, r2, r3, r4] = Inr [r1, r4]"
    by (simp add: select_dicts_def and_then_def p)
  from e select_dicts_subseq [of "Some ''exp''" "Some ''CartPole''" True "[r1, r2, r3, r4]"]
  have "subseq [r1, r4] [r1, r2, r3, r4]"
    by blast
  with e show ?thesis
    unfolding r1_def r2_def r3_def r4_def by (intro conjI)
qed

text \<open>
  C2. The claim is that every enabled predicate excludes a record whose field is
  missing, and in particular that the failure-status filter excludes a record with no
  \<open>status\<close>. The predicate of that filter is \<open>get(sd.run, "status") != "FAILED"\<close>: on a
  missing status it compares \<open>None\<close> to \<open>"FAILED"\<close> and is true, so the record is kept.
\<close>

theorem status_filter_keeps_counterexample:
  "missing (run \<lparr>sacred_dir = ''r/1'', config = [], run = []\<rparr>) [''status''] \<and>
   status_pred \<lparr>sacred_dir = ''r/1'', config = [], run = []\<rparr> = Inr True \<and>
   select_dicts None None True [\<lparr>sacred_dir = ''r/1'', config = [], run = []\<rparr>]
     = Inr [\<lparr>sacred_dir = ''r/1'', config = [], run = []\<rparr>]"
  by (simp add: select_dicts_def status_pred_def and_then_def)

text \<open>
  C2, amended. On a record whose field is missing no predicate raises; the run-name
  and the environment-name predicate are false and the failure-status predicate is
  true. So, of the records of the input of a selection that returns, one without
  \<open>experiment.name\<close> is not in the output when the run-name filter is enabled, one
  without \<open>env_name\<close> is not in the output when the environment-name filter is
  enabled, and one without \<open>status\<close> is in the output exactly when it passes the
  run-name and environment-name filters that are enabled, whether the failure-status
  filter is enabled or not.
\<close>

theorem missing_field_filters:
  "(missing (run sd) [''experiment'', ''name''] \<longrightarrow> run_name_pred n sd = Inr False) \<and>
   (missing (config sd) [''env_name''] \<longrightarrow> env_name_pred n sd = Inr False) \<and>
   (missing (run sd) [''status''] \<longrightarrow> status_pred sd = Inr True) \<and>
   (\<forall>out. select_dicts run_name env_name skip_failed_runs sds = Inr out \<and> sd \<in> set sds \<longrightarrow>
      (run_name \<noteq> None \<and> missing (run sd) [''experiment'', ''name''] \<longrightarrow> sd \<notin> set out) \<and>
      (env_name \<noteq> None \<and> missing (config sd) [''env_name''] \<longrightarrow> sd \<notin> set out) \<and>
      (missing (run sd) [''status''] \<longrightarrow>
         (sd \<in> set out \<longleftrightarrow>
            (\<forall>m. run_name = Some m \<longrightarrow> run_name_pred m sd = Inr True) \<and>
            (\<forall>m. env_name = Some m \<longrightarrow> env_name_pred m sd = Inr True))))"
proof -
  have r: "missing (run sd) [''experiment'', ''name''] \<Longrightarrow> run_name_pred m sd = Inr False" for m
    using missing_get [of "run sd" "[''experiment'', ''name'']"]
    by (simp add: run_name_pred_def and_then_def del: get.simps missing.simps)
  have e: "missing (config sd) [''env_name''] \<Longrightarrow> env_name_pred m sd = Inr False" for m
    using missing_get [of "config sd" "[''env_name'']"]
    by (simp add: env_name_pred_def and_then_def del: get.simps missing.simps)
  have s: "missing (run sd) [''status''] \<Longrightarrow> status_pred sd = Inr True"
    using missing_get [of "run sd" "[''status'']"]
    by (simp add: status_pred_def and_then_def del: get.simps missing.simps)
  have o: "(run_name \<noteq> None \<and> missing (run sd) [''experiment'', ''name''] \<longrightarrow> sd \<notin> set out) \<and>
      (env_name \<noteq> None \<and> missing (config sd) [''env_name''] \<longrightarrow> sd \<notin> set out) \<and>
      (missing (run sd) [''status''] \<longrightarrow>
         (sd \<in> set out \<longleftrightarrow>
            (\<forall>m. run_name = Some m \<longrightarrow> run_name_pred m sd = Inr True) \<and>
            (\<forall>m. env_name = Some m \<longrightarrow> env_name_pred m sd = Inr True)))"
    if sel: "select_dicts run_name env_name skip_failed_runs sds = Inr out" and mem: "sd \<in> set sds"
    for out
  proof -
    have eq: "sd \<in> set out \<longleftrightarrow>
        (skip_failed_runs \<longrightarrow> status_pred sd = Inr True) \<and>
        (\<forall>m. env_name = Some m \<longrightarrow> env_name_pred m sd = Inr True) \<and>
        (\<forall>m. run_name = Some m \<longrightarrow> run_name_pred m sd = Inr True)"
      using select_dicts_eq [OF sel] mem by auto
    show ?thesis
    proof (intro conjI impI)
      assume "run_name \<noteq> None \<and> missing (run sd) [''experiment'', ''name'']"
      then show "sd \<notin> set out"
        using eq r by auto
    next
      assume "env_name \<noteq> None \<and> missing (config sd) [''env_name'']"
      then show "sd \<notin> set out"
        using eq e by auto
    next
      assume "missing (run sd) [''status'']"
      then show "sd \<in> set out \<longleftrightarrow>
            (\<forall>m. run_name = Some m \<longrightarrow> run_name_pred m sd = Inr True) \<and>
            (\<forall>m. env_name = Some m \<longrightarrow> env_name_pred m sd = Inr True)"
        using eq s by auto
    qed
  qed
  from r e s o show ?thesis
    by blast
qed

theorem missing_field_filters_witness:
  "missing (run \<lparr>sacred_dir = ''r/1'', config = [], run = []\<rparr>) [''experiment'', ''name''] \<and>
   missing (config \<lparr>sacred_dir = ''r/1'', config = [], run = []\<rparr>) [''env_name''] \<and>
   missing (run \<lparr>sacred_dir = ''r/1'', config = [], run = []\<rparr>) [''status''] \<and>
   run_name_pred ''exp'' \<lparr>sacred_dir = ''r/1'', config = [], run = []\<rparr> = Inr False \<and>
   env_name_pred ''CartPole'' \<lparr>sacred_dir = ''r/1'', config = [], run = []\<rparr> = Inr False \<and>
   status_pred \<lparr>sacred_dir = ''r/1'', config = [], run = []\<rparr> = Inr True \<and>
   \<lparr>sacred_dir = ''r/1'', config = [], run = []\<rparr> \<in> set
     [\<lparr>sacred_dir = ''r/1'', config = [], run = []\<rparr>,
      \<lparr>sacred_dir = ''r/2'', config = [], run = [(''status'', JStr ''FAILED'')]\<rparr>] \<and>
   select_dicts None None True
     [\<lparr>sacred_dir = ''r/1'', config = [], run = []\<rparr>,
      \<lparr>sacred_dir = ''r/2'', config = [], run = [(''status'', JStr ''FAILED'')]\<rparr>]
     = Inr [\<lparr>sacred_dir = ''r/1'', config = [], run = []\<rparr>] \<and>
   select_dicts (Some ''exp'') None True
     [\<lparr>sacred_dir = ''r/1'', config = [], run = []\<rparr>,
      \<lparr>sacred_dir = ''r/2'', config = [], run = [(''status'', JStr ''FAILED'')]\<rparr>]
     = Inr []"
proof -
  define r1 where "r1 = \<lparr>sacred_dir = ''r/1'', config = [], run = []\<rparr>"
  define r2 where "r2 = \<lparr>sacred_dir = ''r/2'', config = [],
    run = [(''status'', JStr ''FAILED'')]\<rparr>"
  have m: "missing (run r1) [''experiment'', ''name'']" "missing (config r1) [''env_name'']"
    "missing (run r1) [''status'']"
    by (simp_all add: r1_def)
  have p: "run_name_pred ''exp'' r1 = Inr False \<and> env_name_pred ''CartPole'' r1 = Inr False \<and>
      status_pred r1 = Inr True"
    using missing_field_filters [of r1 "''exp''" None None True "[]"]
      missing_field_filters [of r1 "''CartPole''" None None True "[]"] m
    by blast
  have q: "status_pred r2 = Inr False" "run_name_pred ''exp'' r2 = Inr False"
    by (simp_all add: r2_def status_pred_def run_name_pred_def and_then_def)
  have a: "select_dicts None None True [r1, r2] = Inr [r1]"
    using p q by (simp add: select_dicts_def and_then_def)
  have b: "select_dicts (Some ''exp'') None True [r1, r2] = Inr []"
    using p q by (simp add: select_dicts_def and_then_def)
  have c: "r1 \<in> set [r1, r2]"
    by simp
  have d: "r1 \<in> set [r1] \<and> r1 \<notin> set []"
    using missing_field_filters [of r1 "''exp''" None None True "[r1, r2]"]
      missing_field_filters [of r1 "''exp''" "Some ''exp''" None True "[r1, r2]"] a b c m
    by blast
  from m p a b c show ?thesis
    unfolding r1_def r2_def by (intro conjI) blast+
qed

section \<open>The loading loop\<close>


lemma load_loop_aborts:
  assumes "load_from_dir d = Inl e" and "e \<noteq> JSONDecodeError"
  shows "load_loop load_from_dir (d # dirs) sacred_dicts warnings = (warnings, Inl e)"
  using assms by (cases e) simp_all



section \<open>The table\<close>









end
